theory Spec2Isabelle
  imports Main "HOL-Library.Word"
begin

section \<open>Charge indicator (src/charge\_indicator.c): data model\<close>

text \<open>
  The build-time configuration of the module. Every field is one preprocessor symbol of
  the source: the Kconfig switches and numbers, and \<open>CHARGE_INDICATOR_DISABLE_LED\<close>,
  which the source defines when the three LED aliases are not all present in the
  devicetree. The Kconfig numbers are C \<open>int\<close> literals.
\<close>

type_synonym u8 = "8 word"

record config =
  charge_indicator :: bool                \<comment> \<open>CONFIG_CHARGE_INDICATOR\<close>
  charge_indicator_disable_led :: bool    \<comment> \<open>CHARGE_INDICATOR_DISABLE_LED\<close>
  chg_policy :: bool                      \<comment> \<open>CONFIG_CHG_POLICY\<close>
  chg_battery_level_based_color :: bool   \<comment> \<open>CONFIG_CHG_BATTERY_LEVEL_BASED_COLOR\<close>
  chg_color :: int                        \<comment> \<open>CONFIG_CHG_COLOR\<close>
  chg_battery_level_critical :: int       \<comment> \<open>CONFIG_CHG_BATTERY_LEVEL_CRITICAL\<close>
  chg_battery_level_low :: int            \<comment> \<open>CONFIG_CHG_BATTERY_LEVEL_LOW\<close>
  chg_battery_level_high :: int           \<comment> \<open>CONFIG_CHG_BATTERY_LEVEL_HIGH\<close>
  chg_battery_color_critical :: int       \<comment> \<open>CONFIG_CHG_BATTERY_COLOR_CRITICAL\<close>
  chg_battery_color_low :: int            \<comment> \<open>CONFIG_CHG_BATTERY_COLOR_LOW\<close>
  chg_battery_color_medium :: int         \<comment> \<open>CONFIG_CHG_BATTERY_COLOR_MEDIUM\<close>
  chg_battery_color_high :: int           \<comment> \<open>CONFIG_CHG_BATTERY_COLOR_HIGH\<close>
  chg_battery_color_missing :: int        \<comment> \<open>CONFIG_CHG_BATTERY_COLOR_MISSING\<close>

text \<open>
  The calls the module makes to the kernel that a claim can observe: a write of a logical
  value to one of the three LED lines, and a sleep of a number of milliseconds.
\<close>

datatype led_line = LEDR | LEDG | LEDB

datatype call = Gpio_pin_set led_line int | K_sleep nat

text \<open>
  The state of the module: the atomic flag \<open>is_charging\<close>, the logical level last written
  to each LED line, what \<open>charge_indicator_init\<close> has installed, and the trace of calls
  made so far, oldest first.
\<close>

record state =
  is_charging :: bool
  ledr_level :: bool
  ledg_level :: bool
  ledb_level :: bool
  chg_cb_added :: bool
  chg_maint_thread_created :: bool
  calls :: "call list"

section \<open>LED lines\<close>

text \<open>\<open>gpio_pin_set\<close> drives the line to its active level when the value is not zero.\<close>

fun gpio_pin_set :: "led_line \<Rightarrow> int \<Rightarrow> state \<Rightarrow> state" where
  "gpio_pin_set LEDR v s = s\<lparr>ledr_level := (v \<noteq> 0), calls := calls s @ [Gpio_pin_set LEDR v]\<rparr>"
| "gpio_pin_set LEDG v s = s\<lparr>ledg_level := (v \<noteq> 0), calls := calls s @ [Gpio_pin_set LEDG v]\<rparr>"
| "gpio_pin_set LEDB v s = s\<lparr>ledb_level := (v \<noteq> 0), calls := calls s @ [Gpio_pin_set LEDB v]\<rparr>"

definition k_sleep :: "nat \<Rightarrow> state \<Rightarrow> state" where
  "k_sleep ms s = s\<lparr>calls := calls s @ [K_sleep ms]\<rparr>"

definition led_red :: "bool \<Rightarrow> state \<Rightarrow> state" where
  "led_red on s = gpio_pin_set LEDR (if on then 1 else 0) s"

definition led_green :: "bool \<Rightarrow> state \<Rightarrow> state" where
  "led_green on s = gpio_pin_set LEDG (if on then 1 else 0) s"

definition led_blue :: "bool \<Rightarrow> state \<Rightarrow> state" where
  "led_blue on s = gpio_pin_set LEDB (if on then 1 else 0) s"

text \<open>The three statements of one \<open>switch\<close> arm, in the order the source runs them.\<close>

definition set_rgb :: "bool \<Rightarrow> bool \<Rightarrow> bool \<Rightarrow> state \<Rightarrow> state" where
  "set_rgb r g b s = led_blue b (led_green g (led_red r s))"

definition apply_color_code :: "int \<Rightarrow> state \<Rightarrow> state" where
  "apply_color_code color s =
     (if color = 0 then set_rgb False False False s
      else if color = 1 then set_rgb True False False s
      else if color = 2 then set_rgb False True False s
      else if color = 3 then set_rgb True True False s
      else if color = 4 then set_rgb False False True s
      else if color = 5 then set_rgb True False True s
      else if color = 6 then set_rgb False True True s
      else if color = 7 then set_rgb True True True s
      else set_rgb True False False s)"

section \<open>Colour from the battery level\<close>

text \<open>
  \<open>get_battery_level_color\<close> stores what \<open>zmk_battery_state_of_charge()\<close> returns in a
  \<open>uint8_t\<close>; the comparisons promote it to \<open>int\<close>, which \<open>uint\<close> reads.
\<close>

definition get_battery_level_color :: "config \<Rightarrow> u8 \<Rightarrow> int" where
  "get_battery_level_color cfg battery_pct =
     (if uint battery_pct < 0 \<or> uint battery_pct > 100 then chg_battery_color_missing cfg
      else if uint battery_pct < chg_battery_level_critical cfg then chg_battery_color_critical cfg
      else if uint battery_pct < chg_battery_level_low cfg then chg_battery_color_low cfg
      else if uint battery_pct < chg_battery_level_high cfg then chg_battery_color_medium cfg
      else chg_battery_color_high cfg)"

text \<open>
  The threshold rule in the words of the specification, on an integer percentage: outside
  \<open>[0,100]\<close> the missing colour, then the thresholds as exclusive upper bounds in
  ascending order, the first match winning.
\<close>

definition select_color_spec :: "config \<Rightarrow> int \<Rightarrow> int" where
  "select_color_spec cfg pct =
     (if pct < 0 \<or> 100 < pct then chg_battery_color_missing cfg
      else if pct < chg_battery_level_critical cfg then chg_battery_color_critical cfg
      else if pct < chg_battery_level_low cfg then chg_battery_color_low cfg
      else if pct < chg_battery_level_high cfg then chg_battery_color_medium cfg
      else chg_battery_color_high cfg)"

section \<open>Charging state and policy\<close>

definition read_charging :: "int \<Rightarrow> bool" where
  "read_charging raw = (raw = 0)"

definition apply_charging_color :: "config \<Rightarrow> u8 \<Rightarrow> bool \<Rightarrow> state \<Rightarrow> state" where
  "apply_charging_color cfg soc charging s =
     (if charge_indicator_disable_led cfg then s
      else if charging then
        (if chg_policy cfg then set_rgb False False False s
         else if chg_battery_level_based_color cfg
           then apply_color_code (get_battery_level_color cfg soc) s
         else apply_color_code (chg_color cfg) s)
      else set_rgb False False False s)"

text \<open>
  The interrupt handler of the charge-status line. \<open>raw\<close> is what \<open>gpio_pin_get_raw\<close>
  returns after the 8 ms settle delay, \<open>soc\<close> what the battery subsystem reports.
\<close>

definition chg_handler :: "config \<Rightarrow> u8 \<Rightarrow> int \<Rightarrow> state \<Rightarrow> state" where
  "chg_handler cfg soc raw s =
     (let s1 = k_sleep 8 s;
          charging = read_charging raw;
          s2 = s1\<lparr>is_charging := charging\<rparr>
      in apply_charging_color cfg soc charging s2)"

section \<open>Battery event listener\<close>

text \<open>
  An event of the ZMK event manager: a battery-state-changed event with its state of
  charge, or an event of any other type. \<open>as_zmk_battery_state_changed\<close> is the cast of
  the event manager: \<open>NULL\<close> for an event of another type.
\<close>

datatype zmk_event = Battery_state_changed u8 | Other_event

fun as_zmk_battery_state_changed :: "zmk_event \<Rightarrow> u8 option" where
  "as_zmk_battery_state_changed (Battery_state_changed level) = Some level"
| "as_zmk_battery_state_changed Other_event = None"

text \<open>The two errno numbers of Zephyr that the module returns negated.\<close>

definition ENODEV :: int where
  "ENODEV = 19"

definition ENOTSUP :: int where
  "ENOTSUP = 134"

definition battery_state_changed_listener ::
  "config \<Rightarrow> u8 \<Rightarrow> zmk_event \<Rightarrow> state \<Rightarrow> int \<times> state" where
  "battery_state_changed_listener cfg soc eh s =
     (case as_zmk_battery_state_changed eh of
        None \<Rightarrow> (- ENOTSUP, s)
      | Some ev \<Rightarrow>
          (0, if is_charging s then apply_charging_color cfg soc True s else s))"

section \<open>Maintenance thread\<close>

text \<open>
  One iteration of the body of \<open>while (true)\<close> in \<open>charging_maint_task\<close>. The loop has no
  exit; the other contexts run between its iterations, so the loop is the repetition of
  this step inside \<open>run\<close> below.
\<close>

definition charging_maint_iter :: "config \<Rightarrow> u8 \<Rightarrow> state \<Rightarrow> state" where
  "charging_maint_iter cfg soc s =
     (if is_charging s then k_sleep 150 (apply_charging_color cfg soc True s)
      else k_sleep 1000 s)"

section \<open>Initialisation\<close>

text \<open>
  What the platform answers during \<open>charge_indicator_init\<close>: whether each controller
  device is ready, the return value of each configuration call, and the two raw levels of
  the charge-status line read 10 ms apart.
\<close>

record boot_env =
  chg_dev_ready :: bool
  ledr_dev_ready :: bool
  ledg_dev_ready :: bool
  ledb_dev_ready :: bool
  chg_cfg_ret :: int
  ledr_cfg_ret :: int
  ledg_cfg_ret :: int
  ledb_cfg_ret :: int
  raw1 :: int
  raw2 :: int
  chg_int_cfg_ret :: int
  chg_add_cb_ret :: int

definition charge_indicator_init :: "config \<Rightarrow> boot_env \<Rightarrow> u8 \<Rightarrow> state \<Rightarrow> int \<times> state" where
  "charge_indicator_init cfg env soc s =
     (if \<not> charge_indicator cfg then (0, s)
      else if \<not> chg_dev_ready env then (- ENODEV, s)
      else if \<not> charge_indicator_disable_led cfg \<and>
              (\<not> ledr_dev_ready env \<or> \<not> ledg_dev_ready env \<or> \<not> ledb_dev_ready env)
        then (- ENODEV, s)
      else if chg_cfg_ret env \<noteq> 0 then (chg_cfg_ret env, s)
      else if \<not> charge_indicator_disable_led cfg \<and> ledr_cfg_ret env \<noteq> 0
        then (ledr_cfg_ret env, s)
      else if \<not> charge_indicator_disable_led cfg \<and> ledg_cfg_ret env \<noteq> 0
        then (ledg_cfg_ret env, s)
      else if \<not> charge_indicator_disable_led cfg \<and> ledb_cfg_ret env \<noteq> 0
        then (ledb_cfg_ret env, s)
      else
        (let s1 = k_sleep 20 s;
             c1 = read_charging (raw1 env);
             s2 = k_sleep 10 s1;
             c2 = read_charging (raw2 env);
             charging_init = (c1 \<and> c2);
             s3 = s2\<lparr>is_charging := charging_init\<rparr>;
             s4 = apply_charging_color cfg soc charging_init s3
         in if chg_int_cfg_ret env \<noteq> 0 then (chg_int_cfg_ret env, s4)
            else if chg_add_cb_ret env \<noteq> 0 then (chg_add_cb_ret env, s4)
            else (0, s4\<lparr>chg_cb_added := True, chg_maint_thread_created := True\<rparr>)))"

section \<open>Executions\<close>

text \<open>
  After initialisation three contexts run the module: the interrupt of the charge-status
  line (with the raw level it reads), the event manager delivering an event to the
  listener, and the maintenance thread running one iteration. An execution is a list of
  such activations, each with the state of charge reported while it runs; every
  activation runs to its end before the next one starts.
\<close>

datatype activation = Chg_irq int | Event_raised zmk_event | Maint_iter

fun is_chg_irq :: "activation \<Rightarrow> bool" where
  "is_chg_irq (Chg_irq raw) = True"
| "is_chg_irq (Event_raised eh) = False"
| "is_chg_irq Maint_iter = False"

fun activate :: "config \<Rightarrow> u8 \<times> activation \<Rightarrow> state \<Rightarrow> state" where
  "activate cfg (soc, Chg_irq raw) s = chg_handler cfg soc raw s"
| "activate cfg (soc, Event_raised eh) s = snd (battery_state_changed_listener cfg soc eh s)"
| "activate cfg (soc, Maint_iter) s = charging_maint_iter cfg soc s"

fun run :: "config \<Rightarrow> (u8 \<times> activation) list \<Rightarrow> state \<Rightarrow> state" where
  "run cfg [] s = s"
| "run cfg (a # as) s = run cfg as (activate cfg a s)"

text \<open>The writes to the LED lines among a list of calls.\<close>

fun is_gpio_write :: "call \<Rightarrow> bool" where
  "is_gpio_write (Gpio_pin_set l v) = True"
| "is_gpio_write (K_sleep ms) = False"

definition gpio_writes :: "state \<Rightarrow> call list" where
  "gpio_writes s = filter is_gpio_write (calls s)"

text \<open>The levels of the three LED lines, as (red, green, blue).\<close>

definition channels :: "state \<Rightarrow> bool \<times> bool \<times> bool" where
  "channels s = (ledr_level s, ledg_level s, ledb_level s)"

section \<open>Concrete inputs\<close>

text \<open>
  A configuration with LED control, battery-level colouring, the thresholds 10, 30 and 80
  and the colours red (critical), yellow (low), green (medium), white (high) and blue
  (missing); a state before any call, not charging; and a platform on which every device
  is ready and every configuration call succeeds.
\<close>

definition example_config :: config where
  "example_config =
     \<lparr>charge_indicator = True, charge_indicator_disable_led = False, chg_policy = False,
      chg_battery_level_based_color = True, chg_color = 5,
      chg_battery_level_critical = 10, chg_battery_level_low = 30,
      chg_battery_level_high = 80,
      chg_battery_color_critical = 1, chg_battery_color_low = 3,
      chg_battery_color_medium = 2, chg_battery_color_high = 7,
      chg_battery_color_missing = 4\<rparr>"

definition idle_state :: state where
  "idle_state =
     \<lparr>is_charging = False, ledr_level = False, ledg_level = False, ledb_level = False,
      chg_cb_added = False, chg_maint_thread_created = False, calls = []\<rparr>"

definition example_boot_env :: "int \<Rightarrow> int \<Rightarrow> boot_env" where
  "example_boot_env r1 r2 =
     \<lparr>chg_dev_ready = True, ledr_dev_ready = True, ledg_dev_ready = True,
      ledb_dev_ready = True, chg_cfg_ret = 0, ledr_cfg_ret = 0, ledg_cfg_ret = 0,
      ledb_cfg_ret = 0, raw1 = r1, raw2 = r2, chg_int_cfg_ret = 0, chg_add_cb_ret = 0\<rparr>"

section \<open>Auxiliary facts\<close>

text \<open>
  The value of a \<open>uint8_t\<close> that was assigned an integer between \<open>-128\<close> and \<open>255\<close>.
\<close>

lemma uint_u8_of_int: "- 128 \<le> q \<Longrightarrow> q \<le> 255 \<Longrightarrow>
  uint (word_of_int q :: u8) = (if q < 0 then q + 256 else q)"
proof -
  assume a: "- 128 \<le> q" "q \<le> 255"
  have "uint (word_of_int q :: u8) = q mod 256"
    by (simp add: uint_word_of_int)
  moreover have "q mod 256 = (if q < 0 then q + 256 else q)"
  proof (cases "q < 0")
    case True
    with a have "0 \<le> q + 256" "q + 256 < 256" by simp_all
    then have "(q + 256) mod 256 = q + 256" by (rule mod_pos_pos_trivial)
    with True show ?thesis by simp
  next
    case False
    with a have "q mod 256 = q" by simp
    with False show ?thesis by simp
  qed
  ultimately show ?thesis by simp
qed

text \<open>One \<open>switch\<close> arm as a single update of the state.\<close>

lemma set_rgb_eq: "set_rgb r g b s =
  s\<lparr>ledr_level := r, ledg_level := g, ledb_level := b,
    calls := calls s @ [Gpio_pin_set LEDR (if r then 1 else 0),
                        Gpio_pin_set LEDG (if g then 1 else 0),
                        Gpio_pin_set LEDB (if b then 1 else 0)]\<rparr>"
  by (simp add: set_rgb_def led_red_def led_green_def led_blue_def)

lemma apply_color_code_set_rgb: "\<exists>r g b. apply_color_code c = set_rgb r g b"
  unfolding apply_color_code_def fun_eq_iff by (simp; blast)

text \<open>Nothing but the interrupt handler assigns the flag.\<close>

lemma is_charging_set_rgb: "is_charging (set_rgb r g b s) = is_charging s"
  by (simp add: set_rgb_eq)

lemma is_charging_apply_color_code: "is_charging (apply_color_code c s) = is_charging s"
  using apply_color_code_set_rgb [of c] by (auto simp add: is_charging_set_rgb)

lemma is_charging_apply_charging_color:
  "is_charging (apply_charging_color cfg soc b s) = is_charging s"
  by (simp add: apply_charging_color_def is_charging_set_rgb is_charging_apply_color_code)

lemma is_charging_k_sleep: "is_charging (k_sleep ms s) = is_charging s"
  by (simp add: k_sleep_def)

lemma is_charging_maint: "is_charging (charging_maint_iter cfg soc s) = is_charging s"
  by (simp add: charging_maint_iter_def is_charging_k_sleep is_charging_apply_charging_color)

lemma is_charging_listener:
  "is_charging (snd (battery_state_changed_listener cfg soc eh s)) = is_charging s"
  by (simp add: battery_state_changed_listener_def is_charging_apply_charging_color
      split: option.split)

lemma is_charging_activate:
  "\<not> is_chg_irq (snd a) \<Longrightarrow> is_charging (activate cfg a s) = is_charging s"
  by (cases a; cases "snd a") (simp_all add: is_charging_maint is_charging_listener)

lemma is_charging_run:
  "\<forall>a\<in>set as. \<not> is_chg_irq (snd a) \<Longrightarrow> is_charging (run cfg as s) = is_charging s"
  by (induction as arbitrary: s) (simp_all add: is_charging_activate)

text \<open>
  Initialisation assigns the flag when it reaches the sampling, and returns before any
  assignment otherwise.
\<close>

lemma is_charging_init:
  "is_charging (snd (charge_indicator_init cfg env soc s))
     = (if charge_indicator cfg \<and> chg_dev_ready env
           \<and> (charge_indicator_disable_led cfg
              \<or> (ledr_dev_ready env \<and> ledg_dev_ready env \<and> ledb_dev_ready env))
           \<and> chg_cfg_ret env = 0
           \<and> (charge_indicator_disable_led cfg
              \<or> (ledr_cfg_ret env = 0 \<and> ledg_cfg_ret env = 0 \<and> ledb_cfg_ret env = 0))
        then read_charging (raw1 env) \<and> read_charging (raw2 env)
        else is_charging s)"
  by (auto simp add: charge_indicator_init_def Let_def is_charging_apply_charging_color)

text \<open>
  While the flag is false, an activation other than the interrupt leaves the state as it
  is or only sleeps.
\<close>

lemma activate_idle:
  "\<not> is_chg_irq (snd a) \<Longrightarrow> \<not> is_charging s \<Longrightarrow>
   activate cfg a s = s \<or> activate cfg a s = k_sleep 1000 s"
  by (cases a; cases "snd a")
    (simp_all add: charging_maint_iter_def battery_state_changed_listener_def split: option.split)

lemma gpio_writes_k_sleep: "gpio_writes (k_sleep ms s) = gpio_writes s"
  by (simp add: gpio_writes_def k_sleep_def)

lemma channels_k_sleep: "channels (k_sleep ms s) = channels s"
  by (simp add: channels_def k_sleep_def)

lemma run_idle:
  "\<forall>a\<in>set as. \<not> is_chg_irq (snd a) \<Longrightarrow> \<not> is_charging s \<Longrightarrow>
   gpio_writes (run cfg as s) = gpio_writes s \<and> channels (run cfg as s) = channels s"
proof (induction as arbitrary: s)
  case Nil
  then show ?case by simp
next
  case (Cons a as)
  from Cons.prems have na: "\<not> is_chg_irq (snd a)" and rest: "\<forall>a\<in>set as. \<not> is_chg_irq (snd a)"
    by simp_all
  from na Cons.prems(2) have idle: "\<not> is_charging (activate cfg a s)"
    by (simp add: is_charging_activate)
  from activate_idle [OF na Cons.prems(2), of cfg]
  have same: "gpio_writes (activate cfg a s) = gpio_writes s \<and> channels (activate cfg a s) = channels s"
    by (auto simp add: gpio_writes_k_sleep channels_k_sleep)
  from Cons.IH [OF rest idle] same show ?case by simp
qed

text \<open>Without LED control no activation writes an LED line.\<close>

lemma activate_no_led:
  "charge_indicator_disable_led cfg \<Longrightarrow>
   gpio_writes (activate cfg a s) = gpio_writes s \<and> channels (activate cfg a s) = channels s"
  by (cases a; cases "snd a")
    (simp_all add: charging_maint_iter_def battery_state_changed_listener_def chg_handler_def
      apply_charging_color_def gpio_writes_k_sleep channels_k_sleep Let_def
      gpio_writes_def channels_def k_sleep_def split: option.split)

lemma run_no_led:
  "charge_indicator_disable_led cfg \<Longrightarrow>
   gpio_writes (run cfg as s) = gpio_writes s \<and> channels (run cfg as s) = channels s"
  by (induction as arbitrary: s) (simp_all add: activate_no_led)

lemma run_append: "run cfg (as @ bs) s = run cfg bs (run cfg as s)"
  by (induction as arbitrary: s) simp_all

section \<open>Claims\<close>

text \<open>
  C1. The colour that \<open>get_battery_level_color\<close> selects follows the threshold order of
  the specification on the value of the \<open>uint8_t\<close> it reads: above 100 the missing colour,
  below the critical threshold the critical colour, below the low threshold the low colour,
  below the high threshold the medium colour, otherwise the high colour. An integer between
  \<open>-128\<close> and \<open>255\<close> stored in the \<open>uint8_t\<close> gets the colour the specification gives that
  integer, so a negative one gets the missing colour. While charging with LED control,
  without the force-off policy and with battery-level colouring, this is the colour
  applied. With the thresholds 10, 30 and 80, the percentages 5, 29, 79 and 90 give the
  critical, low, medium and high colours, and 150 and \<open>-1\<close> the missing colour.
\<close>

theorem get_battery_level_color_thresholds:
  "get_battery_level_color cfg soc = select_color_spec cfg (uint soc)
   \<and> (- 128 \<le> q \<and> q \<le> 255 \<longrightarrow>
        get_battery_level_color cfg (word_of_int q) = select_color_spec cfg q)
   \<and> (\<not> charge_indicator_disable_led cfg \<and> \<not> chg_policy cfg \<and>
        chg_battery_level_based_color cfg \<longrightarrow>
        apply_charging_color cfg soc True s
          = apply_color_code (select_color_spec cfg (uint soc)) s)
   \<and> (let ex = cfg\<lparr>chg_battery_level_critical := 10, chg_battery_level_low := 30,
                     chg_battery_level_high := 80\<rparr>
      in get_battery_level_color ex 5 = chg_battery_color_critical cfg
       \<and> get_battery_level_color ex 29 = chg_battery_color_low cfg
       \<and> get_battery_level_color ex 79 = chg_battery_color_medium cfg
       \<and> get_battery_level_color ex 90 = chg_battery_color_high cfg
       \<and> get_battery_level_color ex 150 = chg_battery_color_missing cfg
       \<and> get_battery_level_color ex (word_of_int (- 1)) = chg_battery_color_missing cfg)"
proof -
  have code_spec: "get_battery_level_color c p = select_color_spec c (uint p)" for c p
    by (simp add: get_battery_level_color_def select_color_spec_def)
  have wrapped: "- 128 \<le> q \<and> q \<le> 255 \<longrightarrow>
      get_battery_level_color cfg (word_of_int q) = select_color_spec cfg q"
    by (simp add: code_spec select_color_spec_def uint_u8_of_int)
  have applied: "\<not> charge_indicator_disable_led cfg \<and> \<not> chg_policy cfg \<and>
      chg_battery_level_based_color cfg \<longrightarrow>
      apply_charging_color cfg soc True s
        = apply_color_code (select_color_spec cfg (uint soc)) s"
    by (simp add: apply_charging_color_def code_spec)
  have minus_one: "uint (- 1 :: u8) = 255"
    using uint_u8_of_int [of "- 1"] by simp
  have examples: "let ex = cfg\<lparr>chg_battery_level_critical := 10, chg_battery_level_low := 30,
                     chg_battery_level_high := 80\<rparr>
      in get_battery_level_color ex 5 = chg_battery_color_critical cfg
       \<and> get_battery_level_color ex 29 = chg_battery_color_low cfg
       \<and> get_battery_level_color ex 79 = chg_battery_color_medium cfg
       \<and> get_battery_level_color ex 90 = chg_battery_color_high cfg
       \<and> get_battery_level_color ex 150 = chg_battery_color_missing cfg
       \<and> get_battery_level_color ex (word_of_int (- 1)) = chg_battery_color_missing cfg"
    by (simp add: get_battery_level_color_def Let_def minus_one)
  from code_spec wrapped applied examples show ?thesis by blast
qed

text \<open>The theorem at the example configuration, at 20 percent and at \<open>-1\<close>.\<close>

theorem get_battery_level_color_thresholds_witness:
  "(- 128 \<le> (- 1 :: int) \<and> (- 1 :: int) \<le> 255)
   \<and> (\<not> charge_indicator_disable_led example_config \<and> \<not> chg_policy example_config
      \<and> chg_battery_level_based_color example_config)
   \<and> get_battery_level_color example_config 20 = 3
   \<and> get_battery_level_color example_config (word_of_int (- 1)) = 4
   \<and> channels (apply_charging_color example_config 20 True idle_state) = (True, True, False)"
  using get_battery_level_color_thresholds [of example_config 20 "- 1" idle_state]
  by (simp add: example_config_def idle_state_def select_color_spec_def apply_color_code_def
      set_rgb_eq channels_def)

text \<open>
  C2, as stated, fails. With LED control, without the force-off policy and with
  battery-level colouring disabled, a battery-state-changed event delivered while the flag
  is true makes the listener write the fixed colour 5 (red and blue on) to the LED lines:
  the listener does not look at the colouring switch.
\<close>

theorem battery_listener_writes_with_fixed_color:
  "is_charging (idle_state\<lparr>is_charging := True\<rparr>)
   \<and> \<not> chg_battery_level_based_color (example_config\<lparr>chg_battery_level_based_color := False\<rparr>)
   \<and> gpio_writes (idle_state\<lparr>is_charging := True\<rparr>) = []
   \<and> gpio_writes (snd (battery_state_changed_listener
        (example_config\<lparr>chg_battery_level_based_color := False\<rparr>) 20
        (Battery_state_changed 20) (idle_state\<lparr>is_charging := True\<rparr>)))
      = [Gpio_pin_set LEDR 1, Gpio_pin_set LEDG 0, Gpio_pin_set LEDB 1]"
  by (simp add: battery_state_changed_listener_def apply_charging_color_def
      apply_color_code_def set_rgb_eq example_config_def idle_state_def gpio_writes_def)

text \<open>
  C2, amended. On a battery-state-changed event the listener leaves the state as it is
  whenever the flag is false. Whenever the flag is true it re-applies the charging policy,
  whether or not battery-level colouring is enabled: with LED control and without the
  force-off policy it applies the colour selected from the state of charge when the
  colouring is enabled, and the fixed colour when it is disabled.
\<close>

theorem battery_listener_reapplies_while_charging:
  "(\<not> is_charging s \<longrightarrow> snd (battery_state_changed_listener cfg soc eh s) = s)
   \<and> (is_charging s \<longrightarrow>
        snd (battery_state_changed_listener cfg soc (Battery_state_changed level) s)
          = apply_charging_color cfg soc True s)
   \<and> (is_charging s \<and> \<not> charge_indicator_disable_led cfg \<and> \<not> chg_policy cfg \<longrightarrow>
        snd (battery_state_changed_listener cfg soc (Battery_state_changed level) s)
          = apply_color_code
              (if chg_battery_level_based_color cfg then select_color_spec cfg (uint soc)
               else chg_color cfg) s)"
  by (simp add: battery_state_changed_listener_def apply_charging_color_def
      get_battery_level_color_def select_color_spec_def split: option.split)

text \<open>
  The amended C2 at the idle state (nothing changes) and at a charging state, with the
  colouring enabled (20 percent: yellow) and disabled (fixed colour 5: magenta).
\<close>

theorem battery_listener_reapplies_while_charging_witness:
  "\<not> is_charging idle_state
   \<and> snd (battery_state_changed_listener example_config 20 (Battery_state_changed 20) idle_state)
       = idle_state
   \<and> (is_charging (idle_state\<lparr>is_charging := True\<rparr>)
       \<and> \<not> charge_indicator_disable_led example_config \<and> \<not> chg_policy example_config)
   \<and> channels (snd (battery_state_changed_listener example_config 20 (Battery_state_changed 20)
        (idle_state\<lparr>is_charging := True\<rparr>))) = (True, True, False)
   \<and> channels (snd (battery_state_changed_listener
        (example_config\<lparr>chg_battery_level_based_color := False\<rparr>) 20 (Battery_state_changed 20)
        (idle_state\<lparr>is_charging := True\<rparr>))) = (True, False, True)"
proof -
  let ?charging = "idle_state\<lparr>is_charging := True\<rparr>"
  let ?fixed = "example_config\<lparr>chg_battery_level_based_color := False\<rparr>"
  have idle: "\<not> is_charging idle_state"
    by (simp add: idle_state_def)
  have level: "is_charging ?charging \<and> \<not> charge_indicator_disable_led example_config
      \<and> \<not> chg_policy example_config"
    by (simp add: example_config_def)
  have fixed: "is_charging ?charging \<and> \<not> charge_indicator_disable_led ?fixed
      \<and> \<not> chg_policy ?fixed"
    by (simp add: example_config_def)
  note unchanged = battery_listener_reapplies_while_charging
      [of idle_state example_config 20 "Battery_state_changed 20" 20,
        THEN conjunct1, rule_format, OF idle]
  note by_level = battery_listener_reapplies_while_charging
      [of ?charging example_config 20 "Battery_state_changed 20" 20,
        THEN conjunct2, THEN conjunct2, rule_format, OF level]
  note by_fixed = battery_listener_reapplies_while_charging
      [of ?charging ?fixed 20 "Battery_state_changed 20" 20,
        THEN conjunct2, THEN conjunct2, rule_format, OF fixed]
  have "channels (apply_color_code (select_color_spec example_config (uint (20 :: u8))) ?charging)
      = (True, True, False)"
    by (simp add: example_config_def select_color_spec_def apply_color_code_def set_rgb_eq
        channels_def)
  moreover have "channels (apply_color_code (chg_color ?fixed) ?charging) = (True, False, True)"
    by (simp add: example_config_def apply_color_code_def set_rgb_eq channels_def)
  moreover have "chg_battery_level_based_color example_config"
    "\<not> chg_battery_level_based_color ?fixed"
    by (simp_all add: example_config_def)
  ultimately show ?thesis
    using idle level unchanged by_level by_fixed by simp
qed

text \<open>
  C3, as stated, fails. For an event that is not a battery-state-changed event the listener
  returns \<open>-ENOTSUP\<close>, which is \<open>-134\<close> and not the success value 0.
\<close>

theorem battery_listener_rejects_other_event:
  "fst (battery_state_changed_listener example_config 20 Other_event idle_state) = - 134
   \<and> fst (battery_state_changed_listener example_config 20 Other_event idle_state) \<noteq> 0"
  by (simp add: battery_state_changed_listener_def ENOTSUP_def)

text \<open>
  C3, amended. For a battery-state-changed event the listener returns 0. For an event of
  any other type it changes nothing and returns the negative number \<open>-ENOTSUP\<close>.
\<close>

theorem battery_listener_return_value:
  "fst (battery_state_changed_listener cfg soc (Battery_state_changed level) s) = 0
   \<and> battery_state_changed_listener cfg soc Other_event s = (- ENOTSUP, s)
   \<and> - ENOTSUP < 0
   \<and> fst (battery_state_changed_listener cfg soc eh s)
       = (case as_zmk_battery_state_changed eh of None \<Rightarrow> - ENOTSUP | Some ev \<Rightarrow> 0)"
  by (simp add: battery_state_changed_listener_def ENOTSUP_def split: option.split)

text \<open>
  C4. For every colour code \<open>c\<close> from 0 to 7, \<open>apply_color_code\<close> leaves the red, green
  and blue lines at bit 0, bit 1 and bit 2 of \<open>c\<close>, by one write to each line in that
  order; code 0 gives all off, code 5 red and blue, code 7 all on. For every integer below
  0 or above 7 the result is that of code 1, red only.
\<close>

theorem apply_color_code_bit_unpacking:
  "(0 \<le> c \<and> c \<le> 7 \<longrightarrow>
      channels (apply_color_code c s) = (bit c 0, bit c 1, bit c 2)
    \<and> calls (apply_color_code c s)
        = calls s @ [Gpio_pin_set LEDR (if bit c 0 then 1 else 0),
                     Gpio_pin_set LEDG (if bit c 1 then 1 else 0),
                     Gpio_pin_set LEDB (if bit c 2 then 1 else 0)])
   \<and> (c < 0 \<or> 7 < c \<longrightarrow> apply_color_code c s = apply_color_code 1 s)
   \<and> channels (apply_color_code 0 s) = (False, False, False)
   \<and> channels (apply_color_code 1 s) = (True, False, False)
   \<and> channels (apply_color_code 5 s) = (True, False, True)
   \<and> channels (apply_color_code 7 s) = (True, True, True)"
proof -
  have unpack: "apply_color_code c s = set_rgb (bit c 0) (bit c 1) (bit c 2) s"
    if "0 \<le> c" and "c \<le> 7"
  proof -
    from that have "c = 0 \<or> c = 1 \<or> c = 2 \<or> c = 3 \<or> c = 4 \<or> c = 5 \<or> c = 6 \<or> c = 7"
      by arith
    then show ?thesis
      by (elim disjE) (simp_all add: apply_color_code_def bit_iff_odd)
  qed
  have inside: "0 \<le> c \<and> c \<le> 7 \<longrightarrow>
      channels (apply_color_code c s) = (bit c 0, bit c 1, bit c 2)
    \<and> calls (apply_color_code c s)
        = calls s @ [Gpio_pin_set LEDR (if bit c 0 then 1 else 0),
                     Gpio_pin_set LEDG (if bit c 1 then 1 else 0),
                     Gpio_pin_set LEDB (if bit c 2 then 1 else 0)]"
    by (simp add: unpack set_rgb_eq channels_def)
  have outside: "c < 0 \<or> 7 < c \<longrightarrow> apply_color_code c s = apply_color_code 1 s"
    by (auto simp add: apply_color_code_def)
  have examples: "channels (apply_color_code 0 s) = (False, False, False)"
    "channels (apply_color_code 1 s) = (True, False, False)"
    "channels (apply_color_code 5 s) = (True, False, True)"
    "channels (apply_color_code 7 s) = (True, True, True)"
    by (simp_all add: apply_color_code_def set_rgb_eq channels_def)
  from inside outside examples show ?thesis by blast
qed

text \<open>The theorem at the codes 6, 8 and \<open>-3\<close>.\<close>

theorem apply_color_code_bit_unpacking_witness:
  "((0::int) \<le> 6 \<and> (6::int) \<le> 7)
   \<and> channels (apply_color_code 6 idle_state) = (False, True, True)
   \<and> calls (apply_color_code 6 idle_state)
       = [Gpio_pin_set LEDR 0, Gpio_pin_set LEDG 1, Gpio_pin_set LEDB 1]
   \<and> ((8::int) < 0 \<or> (7::int) < 8)
   \<and> apply_color_code 8 idle_state = apply_color_code 1 idle_state
   \<and> ((- 3 :: int) < 0 \<or> (7::int) < - 3)
   \<and> apply_color_code (- 3) idle_state = apply_color_code 1 idle_state"
  using apply_color_code_bit_unpacking [of 6 idle_state]
    apply_color_code_bit_unpacking [of 8 idle_state]
    apply_color_code_bit_unpacking [of "- 3" idle_state]
  by (simp add: idle_state_def bit_iff_odd)

text \<open>
  C5. When \<open>charge_indicator_init\<close> reaches the sampling (the feature is enabled, the
  devices are ready and the pins are configured), the flag it stores is the conjunction of
  the two samples: true exactly when both raw levels read 0. The state it leaves is the
  policy applied for that value after the two sleeps, with the callback and the thread
  installed when the interrupt set-up succeeds.
\<close>

theorem charge_indicator_init_debounce:
  assumes "charge_indicator cfg"
    and "chg_dev_ready env"
    and "charge_indicator_disable_led cfg
         \<or> (ledr_dev_ready env \<and> ledg_dev_ready env \<and> ledb_dev_ready env)"
    and "chg_cfg_ret env = 0"
    and "charge_indicator_disable_led cfg
         \<or> (ledr_cfg_ret env = 0 \<and> ledg_cfg_ret env = 0 \<and> ledb_cfg_ret env = 0)"
  shows "is_charging (snd (charge_indicator_init cfg env soc s))
           = (read_charging (raw1 env) \<and> read_charging (raw2 env))
       \<and> is_charging (snd (charge_indicator_init cfg env soc s))
           = (raw1 env = 0 \<and> raw2 env = 0)
       \<and> snd (charge_indicator_init cfg env soc s)
           = (let s4 = apply_charging_color cfg soc (raw1 env = 0 \<and> raw2 env = 0)
                         (k_sleep 10 (k_sleep 20 s)\<lparr>is_charging := (raw1 env = 0 \<and> raw2 env = 0)\<rparr>)
              in if chg_int_cfg_ret env = 0 \<and> chg_add_cb_ret env = 0
                 then s4\<lparr>chg_cb_added := True, chg_maint_thread_created := True\<rparr>
                 else s4)"
proof -
  let ?b = "raw1 env = 0 \<and> raw2 env = 0"
  let ?s4 = "apply_charging_color cfg soc ?b (k_sleep 10 (k_sleep 20 s)\<lparr>is_charging := ?b\<rparr>)"
  from assms have st: "snd (charge_indicator_init cfg env soc s)
      = (if chg_int_cfg_ret env = 0 \<and> chg_add_cb_ret env = 0
         then ?s4\<lparr>chg_cb_added := True, chg_maint_thread_created := True\<rparr> else ?s4)"
    by (auto simp add: charge_indicator_init_def read_charging_def Let_def)
  have "is_charging ?s4 = ?b"
    by (simp add: is_charging_apply_charging_color)
  with st have flag: "is_charging (snd (charge_indicator_init cfg env soc s)) = ?b"
    by simp
  from st flag show ?thesis
    by (simp add: read_charging_def Let_def)
qed

text \<open>
  The theorem on the example platform, at the four pairs of raw levels: only (0, 0)
  starts as charging.
\<close>

theorem charge_indicator_init_debounce_witness:
  "is_charging (snd (charge_indicator_init example_config (example_boot_env 0 0) 20 idle_state))
   \<and> \<not> is_charging (snd (charge_indicator_init example_config (example_boot_env 0 1) 20 idle_state))
   \<and> \<not> is_charging (snd (charge_indicator_init example_config (example_boot_env 1 0) 20 idle_state))
   \<and> \<not> is_charging (snd (charge_indicator_init example_config (example_boot_env 1 1) 20 idle_state))"
proof -
  have cfg: "charge_indicator example_config"
    by (simp add: example_config_def)
  have env: "chg_dev_ready (example_boot_env r1 r2)"
    "charge_indicator_disable_led example_config
       \<or> (ledr_dev_ready (example_boot_env r1 r2) \<and> ledg_dev_ready (example_boot_env r1 r2)
          \<and> ledb_dev_ready (example_boot_env r1 r2))"
    "chg_cfg_ret (example_boot_env r1 r2) = 0"
    "charge_indicator_disable_led example_config
       \<or> (ledr_cfg_ret (example_boot_env r1 r2) = 0 \<and> ledg_cfg_ret (example_boot_env r1 r2) = 0
          \<and> ledb_cfg_ret (example_boot_env r1 r2) = 0)"
    "raw1 (example_boot_env r1 r2) = r1" "raw2 (example_boot_env r1 r2) = r2" for r1 r2
    by (simp_all add: example_boot_env_def)
  note inst = charge_indicator_init_debounce [OF cfg env(1) env(2) env(3) env(4), THEN conjunct2,
      THEN conjunct1]
  from inst [of 0 0 20 idle_state] inst [of 0 1 20 idle_state] inst [of 1 0 20 idle_state]
    inst [of 1 1 20 idle_state]
  show ?thesis by (simp add: env)
qed

text \<open>
  C6. With the force-off policy, applying the charging state while charging writes off to
  the red, green and blue lines, whatever the fixed colour, the colouring switch, the
  thresholds and the state of charge are (without LED control nothing is written).
\<close>

theorem force_off_policy_all_off:
  "chg_policy cfg \<Longrightarrow>
   apply_charging_color cfg soc True s
     = (if charge_indicator_disable_led cfg then s
        else s\<lparr>ledr_level := False, ledg_level := False, ledb_level := False,
               calls := calls s @ [Gpio_pin_set LEDR 0, Gpio_pin_set LEDG 0,
                                   Gpio_pin_set LEDB 0]\<rparr>)"
  by (simp add: apply_charging_color_def set_rgb_eq)

text \<open>
  The theorem at the example configuration with the force-off policy, from the idle state
  and from a state showing white.
\<close>

theorem force_off_policy_all_off_witness:
  "chg_policy (example_config\<lparr>chg_policy := True\<rparr>)
   \<and> channels (apply_charging_color (example_config\<lparr>chg_policy := True\<rparr>) 20 True
        (apply_color_code 7 idle_state)) = (False, False, False)
   \<and> calls (apply_charging_color (example_config\<lparr>chg_policy := True\<rparr>) 20 True idle_state)
       = [Gpio_pin_set LEDR 0, Gpio_pin_set LEDG 0, Gpio_pin_set LEDB 0]"
  using force_off_policy_all_off [of "example_config\<lparr>chg_policy := True\<rparr>" 20 idle_state]
    force_off_policy_all_off [of "example_config\<lparr>chg_policy := True\<rparr>" 20
      "apply_color_code 7 idle_state"]
  by (simp add: example_config_def idle_state_def channels_def)

text \<open>
  C7. When the interrupt handler reads a raw level other than 0, it clears the flag and,
  after its settle delay, writes off once to each of the three lines (nothing without LED
  control). An iteration of the maintenance thread that reads the flag as false only
  sleeps one second. So along any list of activations without an interrupt that follows,
  the flag stays false, no LED line is written and the levels stay as the handler left
  them.
\<close>

theorem not_charging_edge_off_once_then_idle:
  assumes "raw \<noteq> 0"
    and "\<forall>a\<in>set as. \<not> is_chg_irq (snd a)"
  shows "\<not> is_charging (chg_handler cfg soc raw s)
       \<and> calls (chg_handler cfg soc raw s)
           = calls s @ K_sleep 8 #
               (if charge_indicator_disable_led cfg then []
                else [Gpio_pin_set LEDR 0, Gpio_pin_set LEDG 0, Gpio_pin_set LEDB 0])
       \<and> (\<not> charge_indicator_disable_led cfg \<longrightarrow>
            channels (chg_handler cfg soc raw s) = (False, False, False))
       \<and> (\<not> is_charging t \<longrightarrow>
            charging_maint_iter cfg soc' t = t\<lparr>calls := calls t @ [K_sleep 1000]\<rparr>)
       \<and> \<not> is_charging (run cfg as (chg_handler cfg soc raw s))
       \<and> gpio_writes (run cfg as (chg_handler cfg soc raw s))
           = gpio_writes (chg_handler cfg soc raw s)
       \<and> channels (run cfg as (chg_handler cfg soc raw s))
           = channels (chg_handler cfg soc raw s)"
proof -
  let ?h = "chg_handler cfg soc raw s"
  from assms(1) have flag: "\<not> is_charging ?h"
    by (simp add: chg_handler_def read_charging_def Let_def is_charging_apply_charging_color)
  from assms(1) have trace: "calls ?h = calls s @ K_sleep 8 #
      (if charge_indicator_disable_led cfg then []
       else [Gpio_pin_set LEDR 0, Gpio_pin_set LEDG 0, Gpio_pin_set LEDB 0])"
    by (simp add: chg_handler_def read_charging_def Let_def apply_charging_color_def
        set_rgb_eq k_sleep_def)
  from assms(1) have off: "\<not> charge_indicator_disable_led cfg \<longrightarrow>
      channels ?h = (False, False, False)"
    by (simp add: chg_handler_def read_charging_def Let_def apply_charging_color_def
        set_rgb_eq channels_def)
  have iter: "\<not> is_charging t \<longrightarrow>
      charging_maint_iter cfg soc' t = t\<lparr>calls := calls t @ [K_sleep 1000]\<rparr>"
    by (simp add: charging_maint_iter_def k_sleep_def)
  from assms(2) flag have still: "\<not> is_charging (run cfg as ?h)"
    by (simp add: is_charging_run)
  from run_idle [OF assms(2) flag]
  have quiet: "gpio_writes (run cfg as ?h) = gpio_writes ?h \<and> channels (run cfg as ?h) = channels ?h" .
  from flag trace off iter still quiet show ?thesis by blast
qed

text \<open>
  The theorem after a charging phase showing yellow: the edge writes off once, and two
  iterations of the thread and a battery event after it write nothing.
\<close>

theorem not_charging_edge_off_once_then_idle_witness:
  "gpio_writes (chg_handler example_config 20 1 (apply_color_code 3 (idle_state\<lparr>is_charging := True\<rparr>)))
     = [Gpio_pin_set LEDR 1, Gpio_pin_set LEDG 1, Gpio_pin_set LEDB 0,
        Gpio_pin_set LEDR 0, Gpio_pin_set LEDG 0, Gpio_pin_set LEDB 0]
   \<and> gpio_writes (run example_config
        [(20, Maint_iter), (25, Event_raised (Battery_state_changed 25)), (25, Maint_iter)]
        (chg_handler example_config 20 1 (apply_color_code 3 (idle_state\<lparr>is_charging := True\<rparr>))))
     = [Gpio_pin_set LEDR 1, Gpio_pin_set LEDG 1, Gpio_pin_set LEDB 0,
        Gpio_pin_set LEDR 0, Gpio_pin_set LEDG 0, Gpio_pin_set LEDB 0]
   \<and> channels (run example_config
        [(20, Maint_iter), (25, Event_raised (Battery_state_changed 25)), (25, Maint_iter)]
        (chg_handler example_config 20 1 (apply_color_code 3 (idle_state\<lparr>is_charging := True\<rparr>))))
     = (False, False, False)"
proof -
  let ?s = "apply_color_code 3 (idle_state\<lparr>is_charging := True\<rparr>)"
  let ?as = "[(20 :: u8, Maint_iter), (25, Event_raised (Battery_state_changed 25)), (25, Maint_iter)]"
  have edge: "(1 :: int) \<noteq> 0"
    by simp
  have others: "\<forall>a\<in>set ?as. \<not> is_chg_irq (snd a)"
    by simp
  have led: "\<not> charge_indicator_disable_led example_config"
    by (simp add: example_config_def)
  have before: "calls ?s = [Gpio_pin_set LEDR 1, Gpio_pin_set LEDG 1, Gpio_pin_set LEDB 0]"
    by (simp add: apply_color_code_def set_rgb_eq idle_state_def)
  note inst = not_charging_edge_off_once_then_idle [OF edge others, of example_config 20 ?s]
  from inst have trace: "calls (chg_handler example_config 20 1 ?s)
      = [Gpio_pin_set LEDR 1, Gpio_pin_set LEDG 1, Gpio_pin_set LEDB 0, K_sleep 8,
         Gpio_pin_set LEDR 0, Gpio_pin_set LEDG 0, Gpio_pin_set LEDB 0]"
    using led before by simp
  then have writes: "gpio_writes (chg_handler example_config 20 1 ?s)
      = [Gpio_pin_set LEDR 1, Gpio_pin_set LEDG 1, Gpio_pin_set LEDB 0,
         Gpio_pin_set LEDR 0, Gpio_pin_set LEDG 0, Gpio_pin_set LEDB 0]"
    by (simp add: gpio_writes_def)
  from inst led have off: "channels (chg_handler example_config 20 1 ?s) = (False, False, False)"
    by blast
  from inst have "gpio_writes (run example_config ?as (chg_handler example_config 20 1 ?s))
        = gpio_writes (chg_handler example_config 20 1 ?s)"
    and "channels (run example_config ?as (chg_handler example_config 20 1 ?s))
        = channels (chg_handler example_config 20 1 ?s)"
    by blast+
  with writes off show ?thesis by simp
qed

text \<open>
  C8. Without LED control, applying the charging state changes nothing, and no execution
  writes an LED line or changes a level. The interrupt handler still stores the level it
  reads in the flag, after any execution.
\<close>

theorem led_control_absent_noop:
  assumes "charge_indicator_disable_led cfg"
  shows "apply_charging_color cfg soc charging s = s
       \<and> chg_handler cfg soc raw s = (k_sleep 8 s)\<lparr>is_charging := (raw = 0)\<rparr>
       \<and> is_charging (chg_handler cfg soc raw s) = (raw = 0)
       \<and> gpio_writes (run cfg as s) = gpio_writes s
       \<and> channels (run cfg as s) = channels s
       \<and> is_charging (run cfg (as @ [(soc, Chg_irq raw)]) s) = (raw = 0)"
proof -
  from assms have noop: "apply_charging_color cfg soc' b t = t" for soc' b t
    by (simp add: apply_charging_color_def)
  have handler: "chg_handler cfg soc raw s = (k_sleep 8 s)\<lparr>is_charging := (raw = 0)\<rparr>"
    by (simp add: chg_handler_def Let_def noop read_charging_def)
  have flag: "is_charging (chg_handler cfg soc' raw t) = (raw = 0)" for soc' t
    by (simp add: chg_handler_def Let_def noop read_charging_def)
  have last: "is_charging (run cfg (as @ [(soc, Chg_irq raw)]) s) = (raw = 0)"
    by (simp add: run_append flag)
  from noop handler flag last run_no_led [OF assms, of as s] show ?thesis by simp
qed

text \<open>
  The theorem at the example configuration without LED control: the flag follows the
  edges and nothing is written.
\<close>

theorem led_control_absent_noop_witness:
  "charge_indicator_disable_led (example_config\<lparr>charge_indicator_disable_led := True\<rparr>)
   \<and> apply_charging_color (example_config\<lparr>charge_indicator_disable_led := True\<rparr>) 20 True idle_state
       = idle_state
   \<and> is_charging (chg_handler (example_config\<lparr>charge_indicator_disable_led := True\<rparr>) 20 0 idle_state)
   \<and> gpio_writes (run (example_config\<lparr>charge_indicator_disable_led := True\<rparr>)
        [(20, Chg_irq 0), (20, Maint_iter), (21, Event_raised (Battery_state_changed 21))]
        idle_state) = []
   \<and> \<not> is_charging (run (example_config\<lparr>charge_indicator_disable_led := True\<rparr>)
        ([(20, Chg_irq 0), (20, Maint_iter), (21, Event_raised (Battery_state_changed 21))]
          @ [(21, Chg_irq 1)]) idle_state)"
proof -
  let ?cfg = "example_config\<lparr>charge_indicator_disable_led := True\<rparr>"
  have absent: "charge_indicator_disable_led ?cfg"
    by simp
  have none: "gpio_writes idle_state = []"
    by (simp add: gpio_writes_def idle_state_def)
  from led_control_absent_noop [OF absent, of 20 True idle_state 0 "[]"]
  have first: "apply_charging_color ?cfg 20 True idle_state = idle_state"
    "is_charging (chg_handler ?cfg 20 0 idle_state)"
    by simp_all
  from led_control_absent_noop [OF absent, of 21 True idle_state 1
      "[(20, Chg_irq 0), (20, Maint_iter), (21, Event_raised (Battery_state_changed 21))]"]
  have second: "gpio_writes (run ?cfg
        [(20, Chg_irq 0), (20, Maint_iter), (21, Event_raised (Battery_state_changed 21))]
        idle_state) = gpio_writes idle_state"
    "\<not> is_charging (run ?cfg
        ([(20, Chg_irq 0), (20, Maint_iter), (21, Event_raised (Battery_state_changed 21))]
          @ [(21, Chg_irq 1)]) idle_state)"
    by simp_all
  from absent first second none show ?thesis by simp
qed

text \<open>
  C9. An iteration of the maintenance thread, the battery event listener and the
  application of the policy leave the flag as it is, so an execution without an interrupt
  ends with the flag it started with. The flag is assigned in two places only, both of the
  charge sensor: the interrupt handler stores the level it reads, and initialisation, when
  it reaches the sampling, stores the conjunction of its two samples (before that it
  returns with the flag as it was).
\<close>

theorem is_charging_written_by_sensor_only:
  "is_charging (charging_maint_iter cfg soc s) = is_charging s
   \<and> is_charging (snd (battery_state_changed_listener cfg soc eh s)) = is_charging s
   \<and> is_charging (apply_charging_color cfg soc charging s) = is_charging s
   \<and> ((\<forall>a\<in>set as. \<not> is_chg_irq (snd a)) \<longrightarrow> is_charging (run cfg as s) = is_charging s)
   \<and> is_charging (chg_handler cfg soc raw s) = read_charging raw
   \<and> is_charging (snd (charge_indicator_init cfg env soc s))
       = (if charge_indicator cfg \<and> chg_dev_ready env
             \<and> (charge_indicator_disable_led cfg
                \<or> (ledr_dev_ready env \<and> ledg_dev_ready env \<and> ledb_dev_ready env))
             \<and> chg_cfg_ret env = 0
             \<and> (charge_indicator_disable_led cfg
                \<or> (ledr_cfg_ret env = 0 \<and> ledg_cfg_ret env = 0 \<and> ledb_cfg_ret env = 0))
          then read_charging (raw1 env) \<and> read_charging (raw2 env)
          else is_charging s)"
proof -
  have handler: "is_charging (chg_handler cfg soc raw s) = read_charging raw"
    by (simp add: chg_handler_def Let_def is_charging_apply_charging_color)
  have others: "is_charging (charging_maint_iter cfg soc s) = is_charging s"
    "is_charging (snd (battery_state_changed_listener cfg soc eh s)) = is_charging s"
    "is_charging (apply_charging_color cfg soc charging s) = is_charging s"
    "(\<forall>a\<in>set as. \<not> is_chg_irq (snd a)) \<longrightarrow> is_charging (run cfg as s) = is_charging s"
    by (simp_all add: is_charging_maint is_charging_listener is_charging_apply_charging_color
        is_charging_run)
  from others handler is_charging_init [of cfg env soc s] show ?thesis
    by blast
qed

text \<open>
  The theorem along four activations without an interrupt, from a charging state and from
  the idle state, at the handler for both raw levels, and at initialisation with the
  samples (0, 0) from the idle state and (0, 1) from a state whose flag is true.
\<close>

theorem is_charging_written_by_sensor_only_witness:
  "is_charging (run example_config
        [(20, Maint_iter), (25, Event_raised (Battery_state_changed 25)),
         (25, Event_raised Other_event), (25, Maint_iter)]
        (idle_state\<lparr>is_charging := True\<rparr>))
   \<and> \<not> is_charging (run example_config
        [(20, Maint_iter), (25, Event_raised (Battery_state_changed 25)),
         (25, Event_raised Other_event), (25, Maint_iter)] idle_state)
   \<and> is_charging (chg_handler example_config 20 0 idle_state)
   \<and> \<not> is_charging (chg_handler example_config 20 1 (idle_state\<lparr>is_charging := True\<rparr>))
   \<and> is_charging (snd (charge_indicator_init example_config (example_boot_env 0 0) 20
        idle_state))
   \<and> \<not> is_charging (snd (charge_indicator_init example_config (example_boot_env 0 1) 20
        (idle_state\<lparr>is_charging := True\<rparr>)))"
proof -
  let ?as = "[(20 :: u8, Maint_iter), (25, Event_raised (Battery_state_changed 25)),
        (25, Event_raised Other_event), (25, Maint_iter)]"
  let ?charging = "idle_state\<lparr>is_charging := True\<rparr>"
  have others: "\<forall>a\<in>set ?as. \<not> is_chg_irq (snd a)"
    by simp
  have flags: "\<not> is_charging idle_state" "is_charging ?charging"
    by (simp_all add: idle_state_def)
  have reached: "charge_indicator example_config \<and> chg_dev_ready (example_boot_env r1 r2)
      \<and> (charge_indicator_disable_led example_config
         \<or> (ledr_dev_ready (example_boot_env r1 r2) \<and> ledg_dev_ready (example_boot_env r1 r2)
            \<and> ledb_dev_ready (example_boot_env r1 r2)))
      \<and> chg_cfg_ret (example_boot_env r1 r2) = 0
      \<and> (charge_indicator_disable_led example_config
         \<or> (ledr_cfg_ret (example_boot_env r1 r2) = 0 \<and> ledg_cfg_ret (example_boot_env r1 r2) = 0
            \<and> ledb_cfg_ret (example_boot_env r1 r2) = 0))" for r1 r2
    by (simp add: example_config_def example_boot_env_def)
  have samples: "raw1 (example_boot_env r1 r2) = r1" "raw2 (example_boot_env r1 r2) = r2"
    for r1 r2
    by (simp_all add: example_boot_env_def)
  note up = is_charging_written_by_sensor_only
      [of example_config 20 ?charging Other_event True ?as 1 "example_boot_env 0 1"]
  note down = is_charging_written_by_sensor_only
      [of example_config 20 idle_state Other_event True ?as 0 "example_boot_env 0 0"]
  from up others flags have "is_charging (run example_config ?as ?charging)"
    "\<not> is_charging (chg_handler example_config 20 1 ?charging)"
    "\<not> is_charging (snd (charge_indicator_init example_config (example_boot_env 0 1) 20
        ?charging))"
    by (simp_all add: reached samples read_charging_def)
  moreover from down others flags have "\<not> is_charging (run example_config ?as idle_state)"
    "is_charging (chg_handler example_config 20 0 idle_state)"
    "is_charging (snd (charge_indicator_init example_config (example_boot_env 0 0) 20
        idle_state))"
    by (simp_all add: reached samples read_charging_def)
  ultimately show ?thesis by simp
qed

text \<open>
  C10. For every integer colour argument, also a negative one, \<open>apply_color_code\<close> writes
  each of the three lines once, with values that depend on the argument only: no line
  keeps the level it had.
\<close>

theorem apply_color_code_writes_every_channel:
  "\<exists>r g b. \<forall>s.
     apply_color_code c s
       = s\<lparr>ledr_level := r, ledg_level := g, ledb_level := b,
           calls := calls s @ [Gpio_pin_set LEDR (if r then 1 else 0),
                               Gpio_pin_set LEDG (if g then 1 else 0),
                               Gpio_pin_set LEDB (if b then 1 else 0)]\<rparr>"
proof -
  from apply_color_code_set_rgb [of c]
  obtain r g b where "apply_color_code c = set_rgb r g b" by blast
  then have "\<forall>s. apply_color_code c s
       = s\<lparr>ledr_level := r, ledg_level := g, ledb_level := b,
           calls := calls s @ [Gpio_pin_set LEDR (if r then 1 else 0),
                               Gpio_pin_set LEDG (if g then 1 else 0),
                               Gpio_pin_set LEDB (if b then 1 else 0)]\<rparr>"
    by (simp add: set_rgb_eq)
  then show ?thesis by blast
qed

end
